theory Spec2Isabelle
  imports Complex_Main "HOL-Library.Signed_Division"
begin

section \<open>The web UI (src/App.jsx)\<close>

text \<open>
  The only program among the repository's sources is the React front end
  \<^verbatim>\<open>src/App.jsx\<close>. A component is embedded as a function from its state to the data
  it hands to its children (chart data, card contents); an event handler is a step on
  the component's state. JavaScript numbers that only ever hold small integers are
  \<open>int\<close>; the chart values are decimal literals and are kept as rationals.
\<close>

subsection \<open>Module-level mock data\<close>

record perf_point =
  time :: string
  profit :: rat
  trades :: nat




subsection \<open>HomePage: state and event handlers\<close>

record feature =
  icon :: string
  title :: string
  description :: string
  color :: string

text \<open>The array \<^verbatim>\<open>features\<close> built in the body of \<^verbatim>\<open>HomePage\<close> (lines 165-190).\<close>

definition features :: "feature list" where
  "features =
    [ \<lparr>icon = ''Shield'', title = ''MEV Protection'',
       description = ''Advanced front-running defense with 15-25% profit improvement'',
       color = ''from-green-500 to-emerald-600''\<rparr>,
      \<lparr>icon = ''Brain'', title = ''AI Analysis'',
       description = ''Machine learning-enhanced token analysis and risk assessment'',
       color = ''from-blue-500 to-cyan-600''\<rparr>,
      \<lparr>icon = ''Zap'', title = ''Lightning Execution'',
       description = ''Sub-second execution with optimal timing and slippage protection'',
       color = ''from-yellow-500 to-orange-600''\<rparr>,
      \<lparr>icon = ''Target'', title = ''Pump.fun Optimized'',
       description = ''Platform-specific bonding curve analysis and migration timing'',
       color = ''from-purple-500 to-pink-600''\<rparr> ]"

record home_state =
  currentFeature :: int

text \<open>\<^verbatim>\<open>useState(0)\<close>: the state of a freshly mounted HomePage.\<close>

definition home_init :: home_state where
  "home_init = \<lparr>currentFeature = 0\<rparr>"

text \<open>
  The updater the interval callback passes to \<^verbatim>\<open>setCurrentFeature\<close>:
  \<^verbatim>\<open>(prev) => (prev + 1) % features.length\<close>. JavaScript's \<^verbatim>\<open>%\<close> takes the sign of
  the dividend, which is \<open>smod\<close> on integers.
\<close>

definition advance :: "int \<Rightarrow> int" where
  "advance prev = (prev + 1) smod int (length features)"

text \<open>
  The feature cards come from \<^verbatim>\<open>features.map((feature, index) => ...)\<close>; the card built
  for \<^verbatim>\<open>index\<close> carries \<^verbatim>\<open>onClick={() => setCurrentFeature(index)}\<close>. The list below is
  the value each rendered card's handler stores, in rendering order.
\<close>

definition card_targets :: "int list" where
  "card_targets = map int [0 ..< length features]"

text \<open>
  What can happen to a mounted HomePage: the 3-second interval fires, the user clicks the
  \<open>k\<close>-th rendered card, or the route changes and the component is mounted afresh.
  A click on a card that was never rendered is no event at all and leaves the state as
  it is.
\<close>

datatype home_event = Tick | Click nat | Remount

fun home_step :: "home_state \<Rightarrow> home_event \<Rightarrow> home_state" where
  "home_step s Tick = s\<lparr>currentFeature := advance (currentFeature s)\<rparr>"
| "home_step s (Click k) =
     (if k < length card_targets then s\<lparr>currentFeature := card_targets ! k\<rparr> else s)"
| "home_step s Remount = home_init"

definition home_run :: "home_event list \<Rightarrow> home_state" where
  "home_run evs = foldl home_step home_init evs"

subsection \<open>HomePage: what it renders\<close>





subsection \<open>Dashboard: what it renders\<close>









subsection \<open>Dashboard: state and event handler\<close>




section \<open>The Risk Manager\<close>

text \<open>
  No implementation of the trading pipeline is among the repository's sources: the
  documents under \<^verbatim>\<open>src/\<close> name a module \<^verbatim>\<open>src/trading/risk_manager.py\<close> but the file
  itself is absent. The definitions of this section follow section 4.3 of the
  specification and the data model of its section 3. Amounts are rationals; what the
  specification leaves open (limits, the sizing rule, the drawdown formula) is a field of
  the configuration.
\<close>

datatype signal_action = Buy | Sell | Avoid

datatype protection_level = NoProtection | Standard | High

datatype strategy_tag = Snipe | Longterm

record signal =
  signal_id :: string
  mintId :: string
  action :: signal_action
  targetSizeBaseUnits :: rat
  confidence :: rat
  protectionLevel :: protection_level
  strategyTag :: strategy_tag
  createdAt :: int

datatype decision_reason =
  within_limits
  | circuit_breaker
  | daily_loss_limit
  | max_open_positions
  | concentration_limit
  | correlation_limit

record risk_decision =
  signalId :: string
  approved :: bool
  adjustedSize :: rat
  reason :: decision_reason

record portfolio_risk_state =
  dailyRealizedPnl :: rat
  openPositionCount :: nat
  concentrationByMint :: "string \<Rightarrow> rat"
  consecutiveLossCount :: nat
  circuitBreakerTripped :: bool
  drawdownFromPeak :: rat

text \<open>
  The configured limits. \<open>sizeLimit\<close> is the "limit derived from current
  volatility/drawdown state" of step 6, \<open>drawdownAfter\<close> the rule that folds a realized
  PnL into \<open>drawdownFromPeak\<close>, \<open>correlatedExposure\<close> the aggregate exposure of a
  strategy cluster as the Position Tracker reports it; the specification names them and
  gives no formula.
\<close>

record risk_config =
  consecutiveLossThreshold :: nat
  maxDrawdownPercent :: rat
  apiErrorRateThreshold :: rat
  dailyLossLimit :: rat
  dailyLossTripsBreaker :: bool
  maxOpenPositions :: nat
  maxPerMintFraction :: rat
  portfolioValue :: rat
  correlationCeiling :: rat
  correlatedExposure :: "strategy_tag \<Rightarrow> rat"
  sizeLimit :: "rat \<Rightarrow> rat"
  drawdownAfter :: "rat \<Rightarrow> rat \<Rightarrow> rat"

definition reject :: "signal \<Rightarrow> decision_reason \<Rightarrow> risk_decision" where
  "reject sg why = \<lparr>signalId = signal_id sg, approved = False, adjustedSize = 0, reason = why\<rparr>"

text \<open>
  Modelled from the spec: \<^verbatim>\<open>RiskManager.evaluate(Signal) -> RiskDecision\<close>, missing from
  the sources. Section 4.3: the six checks in order, short-circuiting on the first
  failure; an approval reserves capacity in the PortfolioRiskState before returning.
  The function returns the decision and the state after the call.
\<close>

definition evaluate ::
  "risk_config \<Rightarrow> portfolio_risk_state \<Rightarrow> signal \<Rightarrow> risk_decision \<times> portfolio_risk_state" where
  "evaluate cfg s sg =
    (if circuitBreakerTripped s then (reject sg circuit_breaker, s)
     else if dailyRealizedPnl s < - dailyLossLimit cfg then
       (reject sg daily_loss_limit, s\<lparr>circuitBreakerTripped := dailyLossTripsBreaker cfg\<rparr>)
     else if maxOpenPositions cfg \<le> openPositionCount s then (reject sg max_open_positions, s)
     else if maxPerMintFraction cfg * portfolioValue cfg
               < concentrationByMint s (mintId sg) + targetSizeBaseUnits sg then
       (reject sg concentration_limit, s)
     else if correlationCeiling cfg
               < correlatedExposure cfg (strategyTag sg) + targetSizeBaseUnits sg then
       (reject sg correlation_limit, s)
     else
       (let final = min (targetSizeBaseUnits sg) (sizeLimit cfg (drawdownFromPeak s)) in
        (\<lparr>signalId = signal_id sg, approved = True, adjustedSize = final, reason = within_limits\<rparr>,
         s\<lparr>openPositionCount := Suc (openPositionCount s),
           concentrationByMint :=
             (concentrationByMint s)(mintId sg := concentrationByMint s (mintId sg) + final)\<rparr>)))"

text \<open>
  Modelled from the spec: the update the Risk Manager makes when the Position Tracker
  reports a closed Position, missing from the sources. Section 4.6: the realized PnL is
  folded into daily PnL, the consecutive-loss counter and drawdown-from-peak (a loss
  adds one to the counter, section 8; any other close ends the run of losses). Section
  4.3: the breaker trips automatically on \<open>consecutiveLossCount \<ge> N\<close> and on
  \<open>drawdownFromPeak \<ge> maxDrawdownPercent\<close>. The capacity the Position held is given back.
\<close>

definition positionClosed ::
  "risk_config \<Rightarrow> portfolio_risk_state \<Rightarrow> string \<Rightarrow> rat \<Rightarrow> rat \<Rightarrow> portfolio_risk_state" where
  "positionClosed cfg s mint amount pnl =
    (let losses = (if pnl < 0 then Suc (consecutiveLossCount s) else 0);
         drawdown = drawdownAfter cfg (drawdownFromPeak s) pnl
     in s\<lparr>dailyRealizedPnl := dailyRealizedPnl s + pnl,
          openPositionCount := openPositionCount s - 1,
          concentrationByMint := (concentrationByMint s)(mint := concentrationByMint s mint - amount),
          consecutiveLossCount := losses,
          drawdownFromPeak := drawdown,
          circuitBreakerTripped :=
            (circuitBreakerTripped s \<or> consecutiveLossThreshold cfg \<le> losses
              \<or> maxDrawdownPercent cfg \<le> drawdown)\<rparr>)"

text \<open>
  Modelled from the spec: the release of a reservation after a failed or unreported
  execution (section 4.3), missing from the sources. A confirmed reservation leaves the
  state as the approval made it.
\<close>

definition releaseReservation ::
  "portfolio_risk_state \<Rightarrow> string \<Rightarrow> rat \<Rightarrow> portfolio_risk_state" where
  "releaseReservation s mint amount =
    s\<lparr>openPositionCount := openPositionCount s - 1,
      concentrationByMint := (concentrationByMint s)(mint := concentrationByMint s mint - amount)\<rparr>"

text \<open>
  Modelled from the spec: the third automatic trip of section 4.3, the external API
  error rate exceeding its threshold; missing from the sources.
\<close>

definition reportApiErrorRate ::
  "risk_config \<Rightarrow> portfolio_risk_state \<Rightarrow> rat \<Rightarrow> portfolio_risk_state" where
  "reportApiErrorRate cfg s rate =
    s\<lparr>circuitBreakerTripped := (circuitBreakerTripped s \<or> apiErrorRateThreshold cfg < rate)\<rparr>"

text \<open>
  Modelled from the spec: the reset of the daily counters at the fixed boundary
  (section 3), missing from the sources; \<open>circuitBreakerTripped\<close> persists.
\<close>

definition resetDailyCounters :: "portfolio_risk_state \<Rightarrow> portfolio_risk_state" where
  "resetDailyCounters s = s\<lparr>dailyRealizedPnl := 0\<rparr>"

text \<open>
  Modelled from the spec: \<^verbatim>\<open>manualResetCircuitBreaker()\<close> of the control surface
  (section 6), missing from the sources.
\<close>

definition manualResetCircuitBreaker :: "portfolio_risk_state \<Rightarrow> portfolio_risk_state" where
  "manualResetCircuitBreaker s = s\<lparr>circuitBreakerTripped := False\<rparr>"

text \<open>The calls the Risk Manager can receive, and a run of them from a given state.\<close>

datatype risk_call =
  Evaluate signal
  | PositionClosed string rat rat
  | ReservationConfirmed string rat
  | ReservationReleased string rat
  | ApiErrorRate rat
  | DailyBoundary
  | ManualReset

fun risk_step :: "risk_config \<Rightarrow> portfolio_risk_state \<Rightarrow> risk_call \<Rightarrow> portfolio_risk_state" where
  "risk_step cfg s (Evaluate sg) = snd (evaluate cfg s sg)"
| "risk_step cfg s (PositionClosed mint amount pnl) = positionClosed cfg s mint amount pnl"
| "risk_step cfg s (ReservationConfirmed mint amount) = s"
| "risk_step cfg s (ReservationReleased mint amount) = releaseReservation s mint amount"
| "risk_step cfg s (ApiErrorRate rate) = reportApiErrorRate cfg s rate"
| "risk_step cfg s DailyBoundary = resetDailyCounters s"
| "risk_step cfg s ManualReset = manualResetCircuitBreaker s"

definition risk_run ::
  "risk_config \<Rightarrow> portfolio_risk_state \<Rightarrow> risk_call list \<Rightarrow> portfolio_risk_state" where
  "risk_run cfg s calls = foldl (risk_step cfg) s calls"

text \<open>A configuration with the threshold of five losses, and a fresh portfolio.\<close>

definition example_config :: risk_config where
  "example_config =
    \<lparr>consecutiveLossThreshold = 5, maxDrawdownPercent = 15, apiErrorRateThreshold = 0.5,
     dailyLossLimit = 500, dailyLossTripsBreaker = True, maxOpenPositions = 20,
     maxPerMintFraction = 0.05, portfolioValue = 100, correlationCeiling = 50,
     correlatedExposure = (\<lambda>tag. 0), sizeLimit = (\<lambda>drawdown. 100 - drawdown),
     drawdownAfter = (\<lambda>drawdown pnl. max 0 (drawdown - pnl))\<rparr>"

definition fresh_portfolio :: portfolio_risk_state where
  "fresh_portfolio =
    \<lparr>dailyRealizedPnl = 0, openPositionCount = 0, concentrationByMint = (\<lambda>mint. 0),
     consecutiveLossCount = 0, circuitBreakerTripped = False, drawdownFromPeak = 0\<rparr>"

definition example_signal :: signal where
  "example_signal =
    \<lparr>signal_id = ''sig-1'', mintId = ''X'', action = Buy, targetSizeBaseUnits = 0.05,
     confidence = 8.5, protectionLevel = Standard, strategyTag = Snipe, createdAt = 0\<rparr>"

definition second_signal :: signal where
  "second_signal = example_signal\<lparr>signal_id := ''sig-2'', mintId := ''Y''\<rparr>"

text \<open>A Position on mint X opened on an approved signal and closed at a loss.\<close>

definition losing_trade :: "risk_call list" where
  "losing_trade = [Evaluate example_signal, PositionClosed ''X'' 0.05 (- 0.01)]"

text \<open>
  The scenario of the specification's section 8: a Position on mint Y is opened and
  stays open, four Positions on X are closed at a loss, and a fifth is open.
\<close>

definition before_fifth_loss :: portfolio_risk_state where
  "before_fifth_loss =
    risk_run example_config fresh_portfolio
      (Evaluate second_signal # losing_trade @ losing_trade @ losing_trade @ losing_trade
        @ [Evaluate example_signal])"

text \<open>
  What follows the fifth loss: a new signal, the Position on Y closed at a profit (which
  takes the loss counter back to zero), the daily boundary, an error-rate report.
\<close>

definition later_calls :: "risk_call list" where
  "later_calls =
    [Evaluate example_signal, PositionClosed ''Y'' 0.05 0.2, DailyBoundary, ApiErrorRate 0.1]"

section \<open>Properties of the web UI\<close>

lemma length_features: "length features = 4"
  by (simp add: features_def)

lemma advance_range: "0 \<le> c \<Longrightarrow> c < 4 \<Longrightarrow> 0 \<le> advance c \<and> advance c < 4"
  by (simp add: advance_def length_features signed_modulo_int_def)

lemma card_targets_range: "k < length card_targets \<Longrightarrow> 0 \<le> card_targets ! k \<and> card_targets ! k < 4"
  by (simp add: card_targets_def length_features)

lemma home_step_range:
  "0 \<le> currentFeature s \<and> currentFeature s < 4 \<Longrightarrow>
   0 \<le> currentFeature (home_step s e) \<and> currentFeature (home_step s e) < 4"
  by (cases e) (simp_all add: advance_range card_targets_range home_init_def)

lemma foldl_home_step_range:
  "0 \<le> currentFeature s \<and> currentFeature s < 4 \<Longrightarrow>
   0 \<le> currentFeature (foldl home_step s evs) \<and> currentFeature (foldl home_step s evs) < 4"
proof (induction evs arbitrary: s)
  case Nil
  then show ?case by simp
next
  case (Cons e evs)
  from Cons.prems have "0 \<le> currentFeature (home_step s e) \<and> currentFeature (home_step s e) < 4"
    by (rule home_step_range)
  then show ?case using Cons.IH by simp
qed

text \<open>The interval walks through the four features and wraps around; a click selects.\<close>

lemma ticks_wrap_around:
  "map (\<lambda>n. currentFeature (home_run (replicate n Tick))) [0, 1, 2, 3, 4, 5] = [0, 1, 2, 3, 0, 1]"
  by (simp add: home_run_def home_init_def advance_def length_features signed_modulo_int_def
        numeral_eq_Suc)

lemma click_selects:
  "currentFeature (home_run [Tick, Click 3, Click 7]) = 3
   \<and> currentFeature (home_run [Click 3, Tick]) = 0"
  by (simp add: home_run_def home_init_def advance_def card_targets_def length_features
        signed_modulo_int_def)

text \<open>
  C9. \<^verbatim>\<open>features\<close> has four elements and \<^verbatim>\<open>currentFeature\<close> starts at 0; after any
  sequence of interval ticks, card clicks and remounts it is one of 0, 1, 2, 3, so
  \<^verbatim>\<open>features[currentFeature]\<close> is an access within the array.
\<close>

theorem currentFeature_in_range:
  "length features = 4
   \<and> currentFeature (home_run []) = 0
   \<and> currentFeature (home_run evs) \<in> {0, 1, 2, 3}
   \<and> nat (currentFeature (home_run evs)) < length features"
proof -
  have "0 \<le> currentFeature (home_run evs) \<and> currentFeature (home_run evs) < 4"
    unfolding home_run_def by (rule foldl_home_step_range) (simp add: home_init_def)
  moreover have "currentFeature (home_run []) = 0"
    by (simp add: home_run_def home_init_def)
  ultimately show ?thesis by (auto simp: length_features)
qed






section \<open>Properties of the Risk Manager\<close>

lemma evaluate_tripped:
  "circuitBreakerTripped s \<Longrightarrow> evaluate cfg s sg = (reject sg circuit_breaker, s)"
  by (simp add: evaluate_def)

lemma risk_step_keeps_tripped:
  "circuitBreakerTripped s \<Longrightarrow> c \<noteq> ManualReset \<Longrightarrow> circuitBreakerTripped (risk_step cfg s c)"
  by (cases c)
     (simp_all add: evaluate_tripped positionClosed_def releaseReservation_def
        reportApiErrorRate_def resetDailyCounters_def Let_def)

lemma risk_run_keeps_tripped:
  "circuitBreakerTripped s \<Longrightarrow> ManualReset \<notin> set calls \<Longrightarrow>
   circuitBreakerTripped (risk_run cfg s calls)"
  unfolding risk_run_def
proof (induction calls arbitrary: s)
  case Nil
  then show ?case by simp
next
  case (Cons c calls)
  from Cons.prems have "circuitBreakerTripped (risk_step cfg s c)"
    by (intro risk_step_keeps_tripped) auto
  with Cons.IH Cons.prems show ?case by simp
qed

lemma loss_count_changes_on_close_only:
  "(\<And>mint amount pnl. c \<noteq> PositionClosed mint amount pnl) \<Longrightarrow>
   consecutiveLossCount (risk_step cfg s c) = consecutiveLossCount s"
  by (cases c)
     (auto simp add: evaluate_def releaseReservation_def reportApiErrorRate_def
        resetDailyCounters_def manualResetCircuitBreaker_def Let_def)

lemma positionClosed_trips:
  "consecutiveLossThreshold cfg \<le> consecutiveLossCount (positionClosed cfg s mint amount pnl) \<Longrightarrow>
   circuitBreakerTripped (positionClosed cfg s mint amount pnl)"
  by (simp add: positionClosed_def Let_def)

text \<open>
  C1. \<open>consecutiveLossCount\<close> changes only when a Position is closed. Once such a
  close takes it to the configured threshold, \<open>evaluate\<close> rejects every signal with
  \<open>approved = False\<close> and reason \<open>circuit_breaker\<close>, and goes on doing so after any later
  calls to the Risk Manager, as long as none of them is the manual reset.
\<close>

theorem circuit_breaker_rejects_until_manual_reset:
  assumes reached:
    "consecutiveLossThreshold cfg \<le> consecutiveLossCount (positionClosed cfg s mint amount pnl)"
    and no_reset: "ManualReset \<notin> set calls"
  shows "approved (fst (evaluate cfg (risk_run cfg (positionClosed cfg s mint amount pnl) calls) sg)) = False
    \<and> reason (fst (evaluate cfg (risk_run cfg (positionClosed cfg s mint amount pnl) calls) sg))
        = circuit_breaker"
proof -
  have "circuitBreakerTripped (positionClosed cfg s mint amount pnl)"
    using reached by (rule positionClosed_trips)
  then have "circuitBreakerTripped (risk_run cfg (positionClosed cfg s mint amount pnl) calls)"
    using no_reset by (rule risk_run_keeps_tripped)
  then show ?thesis
    by (simp add: evaluate_tripped reject_def)
qed

text \<open>
  The scenario with five consecutive losing Positions against a threshold of five: the
  fifth loss reaches the threshold, and the signal evaluated after the later calls is
  rejected, although the profitable close among them has reset the loss counter.
\<close>

theorem circuit_breaker_five_losses_witness:
  "consecutiveLossThreshold example_config
     \<le> consecutiveLossCount (positionClosed example_config before_fifth_loss ''X'' 0.05 (- 0.01))
   \<and> ManualReset \<notin> set later_calls
   \<and> approved (fst (evaluate example_config
        (risk_run example_config
          (positionClosed example_config before_fifth_loss ''X'' 0.05 (- 0.01)) later_calls)
        example_signal)) = False
   \<and> reason (fst (evaluate example_config
        (risk_run example_config
          (positionClosed example_config before_fifth_loss ''X'' 0.05 (- 0.01)) later_calls)
        example_signal)) = circuit_breaker"
proof -
  have reached: "consecutiveLossThreshold example_config
     \<le> consecutiveLossCount (positionClosed example_config before_fifth_loss ''X'' 0.05 (- 0.01))"
    by (simp add: before_fifth_loss_def risk_run_def losing_trade_def evaluate_def
          positionClosed_def example_config_def fresh_portfolio_def example_signal_def
          second_signal_def Let_def)
  have no_reset: "ManualReset \<notin> set later_calls"
    by (simp add: later_calls_def)
  from circuit_breaker_rejects_until_manual_reset [OF reached no_reset, of example_signal]
  show ?thesis using reached no_reset by simp
qed

text \<open>
  The model is not one that rejects everything: the signal is approved before the fifth
  loss, and again once the breaker has been reset by hand.
\<close>

lemma approved_before_fifth_loss:
  "approved (fst (evaluate example_config before_fifth_loss example_signal))"
  by code_simp

lemma approved_after_manual_reset:
  "approved (fst (evaluate example_config
     (manualResetCircuitBreaker
       (risk_run example_config
         (positionClosed example_config before_fifth_loss ''X'' 0.05 (- 0.01)) later_calls))
     example_signal))"
  by code_simp

lemma loss_counter_reset_by_later_profit:
  "consecutiveLossCount
     (risk_run example_config
       (positionClosed example_config before_fifth_loss ''X'' 0.05 (- 0.01)) later_calls) = 0"
  by code_simp

end
